theory Spec2Isabelle
  imports Complex_Main
begin

section \<open>Data of the meeting-protocol bot\<close>

text \<open>
  The repository holds two programs: \<^verbatim>\<open>neuro_secretary.py\<close> (the first version) and
  \<^verbatim>\<open>neuro_secretary2.py\<close> (the revision with logging, checks and a cache). Both are a
  linear chain of calls to collaborators: the chat platform, the soundfile and
  noisereduce libraries, the Whisper model, the completion service and the file system.
  The collaborators are parameters of the model (a record of functions); the file
  system, the log, the delivered replies and the trace of collaborator calls are an
  explicit state that every function takes and returns.
\<close>

type_synonym path = string
type_synonym samples = "rat list"

text \<open>
  The two messages the code builds for its own \<^verbatim>\<open>ValueError\<close>s: the literal of line 35
  (empty audio file) and the f-string of line 48, which interpolates the measured
  duration and \<^verbatim>\<open>MAX_AUDIO_DURATION\<close>.
\<close>

datatype reason = EmptyAudio | TooLong rat int

text \<open>
  Exceptions. \<open>ValueError\<close> is what the code raises itself; \<open>OSError\<close> is what
  \<^verbatim>\<open>os\<close> and \<^verbatim>\<open>open\<close> raise on the path given; \<open>LibraryError\<close> is any exception
  raised inside a collaborator, with its message; \<open>AttributeError\<close> is what reading an
  attribute of \<^verbatim>\<open>None\<close> raises. All of them are subclasses of Python's \<^verbatim>\<open>Exception\<close>,
  which is what the \<^verbatim>\<open>except\<close> clauses catch.
\<close>

datatype exn = ValueError reason | OSError path | LibraryError string | AttributeError

datatype log_entry =
    AudioReceived string int
  | CleanError exn
  | TranscribeError exn
  | AnalysisError exn
  | ProtocolError exn
  | ProcessingError exn

text \<open>
  Texts sent to the user. \<open>ProtocolReply p\<close> is the success marker of line 128 followed
  by the protocol \<open>p\<close>, sent with Markdown parsing; \<open>FailureNotice\<close> is the fixed literal
  of line 137; \<open>PlainReply p\<close> is the bare protocol that the first version sends.
\<close>

datatype reply = ProtocolReply string | FailureNotice | PlainReply string

datatype instruction = AnalyseMeeting | CreateProtocol

record chat_request =
  gpt_model :: string
  system_msg :: instruction
  user_msg :: string
  temperature :: rat
  max_tokens :: "nat option"

text \<open>
  An inbound update that carries audio. The handler is registered for every update whose
  effective message has an audio attachment; for a channel post or an edited message
  \<^verbatim>\<open>update.message\<close> is \<^verbatim>\<open>None\<close>, and a message need not have a sender.
\<close>

record user =
  username :: string
  user_id :: int

record message =
  from_user :: "user option"

record update =
  message :: "message option"
  attachment :: string

datatype node = File string | Dir

datatype call =
    LoadModel string
  | GetFile
  | Download string
  | ReduceNoise
  | Transcribe
  | Completion chat_request
  | SendReply reply

record state =
  files :: "path \<rightharpoonup> node"
  logged :: "log_entry list"
  sent :: "reply list"
  calls :: "call list"

text \<open>
  The collaborators. A remote call may answer differently each time, so the platform
  and the completion service take the number of collaborator calls made so far.
  A result \<open>Inl d\<close> is an exception with message \<open>d\<close>.
\<close>

record services =
  md5_hexdigest :: "string \<Rightarrow> string"
  tg_get_file :: "nat \<Rightarrow> update \<Rightarrow> string + string"
  tg_download :: "nat \<Rightarrow> string \<Rightarrow> string + string"
  tg_reply_text :: "nat \<Rightarrow> reply \<Rightarrow> string option"
  sf_read :: "string \<Rightarrow> string + samples \<times> nat"
  sf_info_duration :: "string \<Rightarrow> string + rat"
  sf_encode :: "samples \<Rightarrow> nat \<Rightarrow> string + string"
  nr_reduce_noise :: "samples \<Rightarrow> nat \<Rightarrow> string + samples"
  whisper_load_model :: "string \<Rightarrow> string option"
  whisper_transcribe :: "string \<Rightarrow> string + string"
  openai_create :: "nat \<Rightarrow> chat_request \<Rightarrow> string + string"

type_synonym 'a io = "state \<Rightarrow> (exn + 'a) \<times> state"

section \<open>Sequencing, exceptions and the file system\<close>

definition then_do :: "'a io \<Rightarrow> ('a \<Rightarrow> 'b io) \<Rightarrow> 'b io" where
  "then_do m f st = (case m st of (Inl e, st') \<Rightarrow> (Inl e, st') | (Inr x, st') \<Rightarrow> f x st')"

definition try_except :: "'a io \<Rightarrow> (exn \<Rightarrow> 'a io) \<Rightarrow> 'a io" where
  "try_except m h st = (case m st of (Inl e, st') \<Rightarrow> h e st' | (Inr x, st') \<Rightarrow> (Inr x, st'))"

definition logger :: "log_entry \<Rightarrow> state \<Rightarrow> state" where
  "logger l st = st\<lparr>logged := logged st @ [l]\<rparr>"

text \<open>The body of the inner handlers: \<^verbatim>\<open>logger.error(...)\<close>, then \<^verbatim>\<open>raise\<close>.\<close>

definition log_and_raise :: "(exn \<Rightarrow> log_entry) \<Rightarrow> exn \<Rightarrow> 'a io" where
  "log_and_raise entry e st = (Inl e, logger (entry e) st)"

definition now :: "state \<Rightarrow> nat" where
  "now st = length (calls st)"

definition record_call :: "call \<Rightarrow> state \<Rightarrow> state" where
  "record_call c st = st\<lparr>calls := calls st @ [c]\<rparr>"

definition library :: "string + 'a \<Rightarrow> exn + 'a" where
  "library r = (case r of Inl d \<Rightarrow> Inl (LibraryError d) | Inr x \<Rightarrow> Inr x)"

definition read_bytes :: "path \<Rightarrow> state \<Rightarrow> exn + string" where
  "read_bytes p st = (case files st p of Some (File b) \<Rightarrow> Inr b | _ \<Rightarrow> Inl (OSError p))"

definition write_bytes :: "path \<Rightarrow> string \<Rightarrow> unit io" where
  "write_bytes p b st =
     (case files st p of
        Some Dir \<Rightarrow> (Inl (OSError p), st)
      | _ \<Rightarrow> (Inr (), st\<lparr>files := (files st)(p \<mapsto> File b)\<rparr>))"

definition path_exists :: "state \<Rightarrow> path \<Rightarrow> bool" where
  "path_exists st p = (files st p \<noteq> None)"

text \<open>\<^verbatim>\<open>os.makedirs(p, exist_ok=True)\<close>: an existing directory is accepted, a file is not.\<close>

definition makedirs :: "path \<Rightarrow> unit io" where
  "makedirs p st =
     (case files st p of
        None \<Rightarrow> (Inr (), st\<lparr>files := (files st)(p \<mapsto> Dir)\<rparr>)
      | Some Dir \<Rightarrow> (Inr (), st)
      | Some (File b) \<Rightarrow> (Inl (OSError p), st))"

definition os_remove :: "path \<Rightarrow> unit io" where
  "os_remove p st =
     (case files st p of
        Some (File b) \<Rightarrow> (Inr (), st\<lparr>files := (files st)(p := None)\<rparr>)
      | _ \<Rightarrow> (Inl (OSError p), st))"

text \<open>
  The cache is read and written with \<^verbatim>\<open>open(cache_file, "r")\<close> and
  \<^verbatim>\<open>open(cache_file, "w")\<close>: text mode with the default \<^verbatim>\<open>newline=None\<close>. Reading in
  that mode translates every line ending (carriage return followed by line feed, or a
  carriage return alone) to a line feed; writing on POSIX stores the text as it is.
\<close>

definition CR :: char where "CR = CHR 0x0D"
definition LF :: char where "LF = CHR 0x0A"

fun universal_newlines :: "string \<Rightarrow> string" where
  "universal_newlines [] = []"
| "universal_newlines [c] = [if c = CR then LF else c]"
| "universal_newlines (c # d # cs) =
     (if c = CR \<and> d = LF then LF # universal_newlines cs
      else if c = CR then LF # universal_newlines (d # cs)
      else c # universal_newlines (d # cs))"

definition read_text :: "path \<Rightarrow> string io" where
  "read_text p st =
     (case files st p of
        Some (File b) \<Rightarrow> (Inr (universal_newlines b), st)
      | _ \<Rightarrow> (Inl (OSError p), st))"

definition write_text :: "path \<Rightarrow> string \<Rightarrow> unit io" where
  "write_text p s st = write_bytes p s st"

section \<open>neuro\_secretary2.py\<close>

definition GPT_MODEL :: string where
  "GPT_MODEL = ''gpt-4-turbo-preview''"

definition MAX_AUDIO_DURATION :: int where
  "MAX_AUDIO_DURATION = 60 * 60 * 2"

text \<open>\<^verbatim>\<open>whisper.load_model\<close>, which line 26 calls once while the module is imported.\<close>

definition load_model :: "services \<Rightarrow> string \<Rightarrow> unit io" where
  "load_model sv name st =
     (case whisper_load_model sv name of
        Some d \<Rightarrow> (Inl (LibraryError d), record_call (LoadModel name) st)
      | None \<Rightarrow> (Inr (), record_call (LoadModel name) st))"

text \<open>
  \<^verbatim>\<open>sf.write\<close> encodes the samples and writes the file; \<^verbatim>\<open>nr.reduce_noise\<close> is a
  call to the noise-reduction library.
\<close>

definition sf_write :: "services \<Rightarrow> path \<Rightarrow> samples \<Rightarrow> nat \<Rightarrow> unit io" where
  "sf_write sv p data rate st =
     (case sf_encode sv data rate of
        Inl d \<Rightarrow> (Inl (LibraryError d), st)
      | Inr b \<Rightarrow> write_bytes p b st)"

definition reduce_noise :: "services \<Rightarrow> samples \<Rightarrow> nat \<Rightarrow> samples io" where
  "reduce_noise sv data rate st =
     (library (nr_reduce_noise sv data rate), record_call ReduceNoise st)"

text \<open>Lines 33 to 38, the body of the \<^verbatim>\<open>try\<close> of \<^verbatim>\<open>clean_audio\<close>.\<close>

definition clean_audio_try :: "services \<Rightarrow> path \<Rightarrow> path \<Rightarrow> unit io" where
  "clean_audio_try sv input_file output_file st =
     (case read_bytes input_file st of
        Inl e \<Rightarrow> (Inl e, st)
      | Inr b \<Rightarrow>
          (case sf_read sv b of
             Inl d \<Rightarrow> (Inl (LibraryError d), st)
           | Inr (data, rate) \<Rightarrow>
               if length data = 0 then (Inl (ValueError EmptyAudio), st)
               else then_do (reduce_noise sv data rate)
                      (\<lambda>reduced. sf_write sv output_file reduced rate) st))"

definition clean_audio :: "services \<Rightarrow> path \<Rightarrow> path \<Rightarrow> unit io" where
  "clean_audio sv input_file output_file =
     try_except (clean_audio_try sv input_file output_file) (log_and_raise CleanError)"

text \<open>Line 50: the loaded model transcribes the file at the path.\<close>

definition model_transcribe :: "services \<Rightarrow> path \<Rightarrow> string io" where
  "model_transcribe sv audio_file st =
     (case read_bytes audio_file st of
        Inl e \<Rightarrow> (Inl e, record_call Transcribe st)
      | Inr b \<Rightarrow> (library (whisper_transcribe sv b), record_call Transcribe st))"

text \<open>
  Lines 46 to 51, the body of the \<^verbatim>\<open>try\<close> of \<^verbatim>\<open>transcribe_audio\<close>. The duration
  that \<^verbatim>\<open>sf.info\<close> reports is the quotient of two integers, the frame count and the sample
  rate, held in a Python float: a rational, which Python compares exactly with the integer
  ceiling.
\<close>

definition transcribe_audio_try :: "services \<Rightarrow> path \<Rightarrow> string io" where
  "transcribe_audio_try sv audio_file st =
     (case read_bytes audio_file st of
        Inl e \<Rightarrow> (Inl e, st)
      | Inr b \<Rightarrow>
          (case sf_info_duration sv b of
             Inl d \<Rightarrow> (Inl (LibraryError d), st)
           | Inr duration \<Rightarrow>
               if duration > of_int MAX_AUDIO_DURATION
               then (Inl (ValueError (TooLong duration MAX_AUDIO_DURATION)), st)
               else model_transcribe sv audio_file st))"

definition transcribe_audio :: "services \<Rightarrow> path \<Rightarrow> string io" where
  "transcribe_audio sv audio_file =
     try_except (transcribe_audio_try sv audio_file) (log_and_raise TranscribeError)"

definition create_completion :: "services \<Rightarrow> chat_request \<Rightarrow> string io" where
  "create_completion sv req st =
     (library (openai_create sv (now st) req), record_call (Completion req) st)"

definition analysis_request :: "string \<Rightarrow> chat_request" where
  "analysis_request text =
     \<lparr>gpt_model = GPT_MODEL, system_msg = AnalyseMeeting, user_msg = text,
      temperature = 2 / 10, max_tokens = Some 3000\<rparr>"

definition analyze_text :: "services \<Rightarrow> string \<Rightarrow> string io" where
  "analyze_text sv text =
     try_except (create_completion sv (analysis_request text)) (log_and_raise AnalysisError)"

definition protocol_request :: "string \<Rightarrow> chat_request" where
  "protocol_request analysis_result =
     \<lparr>gpt_model = GPT_MODEL, system_msg = CreateProtocol, user_msg = analysis_result,
      temperature = 5 / 10, max_tokens = Some 3000\<rparr>"

definition cache_dir :: path where
  "cache_dir = ''cache''"

text \<open>Lines 79 and 80: the cache file's name, from the digest of the analysis text.\<close>

definition cache_file :: "services \<Rightarrow> string \<Rightarrow> path" where
  "cache_file sv analysis_result =
     cache_dir @ ''/'' @ md5_hexdigest sv analysis_result @ ''.txt''"

text \<open>Lines 87 to 101, the body of the \<^verbatim>\<open>try\<close> of \<^verbatim>\<open>generate_protocol\<close>.\<close>

definition generate_protocol_try :: "services \<Rightarrow> string \<Rightarrow> string io" where
  "generate_protocol_try sv analysis_result =
     then_do (create_completion sv (protocol_request analysis_result))
       (\<lambda>result. then_do (write_text (cache_file sv analysis_result) result)
          (\<lambda>_ st. (Inr result, st)))"

text \<open>
  \<^verbatim>\<open>generate_protocol\<close>: the directory is made and the cache consulted outside the
  \<^verbatim>\<open>try\<close>, so only a failure of the remote call or of the write is logged here.
\<close>

definition generate_protocol :: "services \<Rightarrow> string \<Rightarrow> string io" where
  "generate_protocol sv analysis_result =
     then_do (makedirs cache_dir)
       (\<lambda>_ st.
          if path_exists st (cache_file sv analysis_result)
          then read_text (cache_file sv analysis_result) st
          else try_except (generate_protocol_try sv analysis_result)
                 (log_and_raise ProtocolError) st)"

definition get_file :: "services \<Rightarrow> update \<Rightarrow> string io" where
  "get_file sv upd st = (library (tg_get_file sv (now st) upd), record_call GetFile st)"

definition download_to_drive :: "services \<Rightarrow> string \<Rightarrow> path \<Rightarrow> unit io" where
  "download_to_drive sv file_id p st =
     (case tg_download sv (now st) file_id of
        Inl d \<Rightarrow> (Inl (LibraryError d), record_call (Download file_id) st)
      | Inr b \<Rightarrow> write_bytes p b (record_call (Download file_id) st))"

text \<open>
  \<^verbatim>\<open>reply_text\<close>: the text is delivered when the platform accepts the call, and the
  call raises otherwise.
\<close>

definition reply_text :: "services \<Rightarrow> reply \<Rightarrow> unit io" where
  "reply_text sv r st =
     (case tg_reply_text sv (now st) r of
        Some d \<Rightarrow> (Inl (LibraryError d), record_call (SendReply r) st)
      | None \<Rightarrow> (Inr (), record_call (SendReply r) (st\<lparr>sent := sent st @ [r]\<rparr>)))"

text \<open>Line 114: the name of the request's temporary file.\<close>

definition temp_file :: "services \<Rightarrow> string \<Rightarrow> path" where
  "temp_file sv file_id = ''temp_'' @ md5_hexdigest sv file_id @ ''.wav''"

text \<open>
  Lines 123 to 133: analysis, generation, the success reply and the cleanup. The reply
  goes through \<^verbatim>\<open>update.message\<close>, which is there once line 109 has read it.
\<close>

definition deliver_protocol :: "services \<Rightarrow> path \<Rightarrow> string \<Rightarrow> unit io" where
  "deliver_protocol sv input_file transcript =
     then_do (analyze_text sv transcript)
       (\<lambda>analysis. then_do (generate_protocol sv analysis)
          (\<lambda>protocol. then_do (reply_text sv (ProtocolReply protocol))
             (\<lambda>_. os_remove input_file)))"

text \<open>Lines 112 to 120: the download, the cleaning in place and the transcription.\<close>

definition download_and_transcribe :: "services \<Rightarrow> update \<Rightarrow> (path \<times> string) io" where
  "download_and_transcribe sv upd =
     then_do (get_file sv upd)
       (\<lambda>file_id.
          then_do (download_to_drive sv file_id (temp_file sv file_id))
            (\<lambda>_. then_do (clean_audio sv (temp_file sv file_id) (temp_file sv file_id))
               (\<lambda>_. then_do (transcribe_audio sv (temp_file sv file_id))
                  (\<lambda>transcript st'. (Inr (temp_file sv file_id, transcript), st')))))"

text \<open>
  Lines 109 and 110 read \<^verbatim>\<open>update.message.from_user\<close> and the sender's name inside the
  \<^verbatim>\<open>try\<close>: without a message, or without a sender, that raises before anything is
  logged or called.
\<close>

definition fetch_transcript :: "services \<Rightarrow> update \<Rightarrow> (path \<times> string) io" where
  "fetch_transcript sv upd st =
     (case message upd of
        None \<Rightarrow> (Inl AttributeError, st)
      | Some m \<Rightarrow>
          (case from_user m of
             None \<Rightarrow> (Inl AttributeError, st)
           | Some u \<Rightarrow>
               download_and_transcribe sv upd
                 (logger (AudioReceived (username u) (user_id u)) st)))"

text \<open>Lines 109 to 133, the body of the \<^verbatim>\<open>try\<close> of \<^verbatim>\<open>handle_audio\<close>.\<close>

definition handle_audio_try :: "services \<Rightarrow> update \<Rightarrow> unit io" where
  "handle_audio_try sv upd =
     then_do (fetch_transcript sv upd)
       (\<lambda>(input_file, transcript). deliver_protocol sv input_file transcript)"

text \<open>
  Lines 135 to 137, the \<^verbatim>\<open>except\<close> clause of \<^verbatim>\<open>handle_audio\<close>: the error is logged,
  then \<^verbatim>\<open>update.message.reply_text\<close> is called, which raises before any send when the
  update has no message. Nothing guards the clause, so what it raises leaves the handler.
\<close>

definition on_failure :: "services \<Rightarrow> update \<Rightarrow> exn \<Rightarrow> unit io" where
  "on_failure sv upd e st =
     (case message upd of
        None \<Rightarrow> (Inl AttributeError, logger (ProcessingError e) st)
      | Some m \<Rightarrow> reply_text sv FailureNotice (logger (ProcessingError e) st))"

definition handle_audio :: "services \<Rightarrow> update \<Rightarrow> unit io" where
  "handle_audio sv upd = try_except (handle_audio_try sv upd) (on_failure sv upd)"

text \<open>
  The process: line 26 loads the model while the module is imported, then \<^verbatim>\<open>main\<close>
  polls. The framework calls the handler once per inbound audio message and goes on to
  the next message whether the handler returned or raised.
\<close>

fun run_polling :: "(update \<Rightarrow> unit io) \<Rightarrow> update list \<Rightarrow> state \<Rightarrow> state" where
  "run_polling handler [] st = st"
| "run_polling handler (u # us) st = run_polling handler us (snd (handler u st))"

definition process2 :: "services \<Rightarrow> update list \<Rightarrow> state \<Rightarrow> state" where
  "process2 sv updates st =
     (case load_model sv ''base'' st of
        (Inl e, st') \<Rightarrow> st'
      | (Inr _, st') \<Rightarrow> run_polling (handle_audio sv) updates st')"

section \<open>neuro\_secretary.py\<close>

text \<open>
  The first version has no \<^verbatim>\<open>try\<close>, no checks and no cache, works on two fixed file
  names, and its \<^verbatim>\<open>transcribe_audio\<close> calls \<^verbatim>\<open>whisper.load_model\<close> itself.
\<close>

definition WHISPER_MODEL :: string where
  "WHISPER_MODEL = ''base''"

definition clean_audio1 :: "services \<Rightarrow> path \<Rightarrow> path \<Rightarrow> unit io" where
  "clean_audio1 sv input_file output_file st =
     (case read_bytes input_file st of
        Inl e \<Rightarrow> (Inl e, st)
      | Inr b \<Rightarrow>
          (case sf_read sv b of
             Inl d \<Rightarrow> (Inl (LibraryError d), st)
           | Inr (data, rate) \<Rightarrow>
               then_do (reduce_noise sv data rate)
                 (\<lambda>reduced. sf_write sv output_file reduced rate) st))"

definition transcribe_audio1 :: "services \<Rightarrow> path \<Rightarrow> string io" where
  "transcribe_audio1 sv audio_file =
     then_do (load_model sv WHISPER_MODEL) (\<lambda>_. model_transcribe sv audio_file)"

definition analyze_text1 :: "services \<Rightarrow> string \<Rightarrow> string io" where
  "analyze_text1 sv text =
     create_completion sv ((analysis_request text)\<lparr>max_tokens := None\<rparr>)"

definition generate_protocol1 :: "services \<Rightarrow> string \<Rightarrow> string io" where
  "generate_protocol1 sv analysis_result =
     create_completion sv ((protocol_request analysis_result)\<lparr>max_tokens := None\<rparr>)"

definition handle_audio1_body :: "services \<Rightarrow> update \<Rightarrow> unit io" where
  "handle_audio1_body sv upd =
     then_do (get_file sv upd)
       (\<lambda>file_id. then_do (download_to_drive sv file_id ''input_audio.wav'')
          (\<lambda>_. then_do (clean_audio1 sv ''input_audio.wav'' ''cleaned_audio.wav'')
             (\<lambda>_. then_do (transcribe_audio1 sv ''cleaned_audio.wav'')
                (\<lambda>transcript. then_do (analyze_text1 sv transcript)
                   (\<lambda>analysis_result. then_do (generate_protocol1 sv analysis_result)
                      (\<lambda>protocol. reply_text sv (PlainReply protocol)))))))"

text \<open>Line 61 reads \<^verbatim>\<open>update.message.audio\<close>, which raises for an update without a message.\<close>

definition handle_audio1 :: "services \<Rightarrow> update \<Rightarrow> unit io" where
  "handle_audio1 sv upd st =
     (case message upd of
        None \<Rightarrow> (Inl AttributeError, st)
      | Some m \<Rightarrow> handle_audio1_body sv upd st)"

definition process1 :: "services \<Rightarrow> update list \<Rightarrow> state \<Rightarrow> state" where
  "process1 sv updates st = run_polling (handle_audio1 sv) updates st"

section \<open>Observations on a run\<close>

text \<open>What a run from \<open>st\<close> to \<open>st'\<close> delivered to the user, logged and called.\<close>

definition delivered :: "state \<Rightarrow> state \<Rightarrow> reply list" where
  "delivered st st' = drop (length (sent st)) (sent st')"

definition new_log :: "state \<Rightarrow> state \<Rightarrow> log_entry list" where
  "new_log st st' = drop (length (logged st)) (logged st')"

definition new_calls :: "state \<Rightarrow> state \<Rightarrow> call list" where
  "new_calls st st' = drop (length (calls st)) (calls st')"

text \<open>The sender of an update, when it has a message and the message has a sender.\<close>

definition sender :: "update \<Rightarrow> user option" where
  "sender upd = (case message upd of None \<Rightarrow> None | Some m \<Rightarrow> from_user m)"

text \<open>The cache directory and the paths below it.\<close>

definition under_cache :: "path \<Rightarrow> bool" where
  "under_cache p = (p = cache_dir \<or> take (length cache_dir + 1) p = cache_dir @ ''/'')"

fun is_load :: "call \<Rightarrow> bool" where
  "is_load (LoadModel name) = True"
| "is_load c = False"

definition model_loads :: "call list \<Rightarrow> nat" where
  "model_loads cs = length (filter is_load cs)"

text \<open>
  What every stage before the success reply leaves alone: it delivers nothing, changes
  files only at the paths \<open>T\<close>, deletes nothing, keeps a regular file a regular file,
  and adds collaborator calls none of which loads the model.
\<close>

definition undisturbed :: "(path \<Rightarrow> bool) \<Rightarrow> state \<Rightarrow> state \<Rightarrow> bool" where
  "undisturbed T st st' \<longleftrightarrow>
     sent st' = sent st \<and>
     (\<forall>p. \<not> T p \<longrightarrow> files st' p = files st p) \<and>
     (\<forall>p. files st p \<noteq> None \<longrightarrow> files st' p \<noteq> None) \<and>
     (\<forall>p b. files st p = Some (File b) \<longrightarrow> (\<exists>b'. files st' p = Some (File b'))) \<and>
     (\<exists>cs. calls st' = calls st @ cs \<and> model_loads cs = 0)"

text \<open>A run from \<open>st\<close> to \<open>st'\<close> only adds calls, and none of them loads the model.\<close>

definition loads_nothing :: "state \<Rightarrow> state \<Rightarrow> bool" where
  "loads_nothing st st' \<longleftrightarrow> (\<exists>cs. calls st' = calls st @ cs \<and> model_loads cs = 0)"

section \<open>Test doubles\<close>

text \<open>
  Collaborators that always answer: the digest is the text itself, an attachment's
  bytes are its identifier, a file decodes to one sample per byte and lasts one second
  per byte, and the completion service answers by instruction.
\<close>

definition stub_services :: services where
  "stub_services =
     \<lparr>md5_hexdigest = (\<lambda>s. s),
      tg_get_file = (\<lambda>t u. Inr (attachment u)),
      tg_download = (\<lambda>t file_id. Inr file_id),
      tg_reply_text = (\<lambda>t r. None),
      sf_read = (\<lambda>b. Inr (map (\<lambda>c. 0) b, 16000)),
      sf_info_duration = (\<lambda>b. Inr (of_nat (length b))),
      sf_encode = (\<lambda>data rate. Inr (map (\<lambda>x. CHR ''s'') data)),
      nr_reduce_noise = (\<lambda>data rate. Inr data),
      whisper_load_model = (\<lambda>name. None),
      whisper_transcribe = (\<lambda>b. Inr ''Alice: ship v2. Bob: QA.''),
      openai_create = (\<lambda>t req.
         Inr (case system_msg req of
                AnalyseMeeting \<Rightarrow> ''analysis''
              | CreateProtocol \<Rightarrow> ''protocol''))\<rparr>"

definition demo_update :: update where
  "demo_update =
     \<lparr>message = Some \<lparr>from_user = Some \<lparr>username = ''alice'', user_id = 7\<rparr>\<rparr>,
      attachment = ''f1''\<rparr>"

text \<open>A channel post with audio: the update has no \<^verbatim>\<open>message\<close>.\<close>

definition channel_post :: update where
  "channel_post = \<lparr>message = None, attachment = ''f1''\<rparr>"

definition initial_state :: state where
  "initial_state = \<lparr>files = Map.empty, logged = [], sent = [], calls = []\<rparr>"


definition no_download_services :: services where
  "no_download_services = stub_services\<lparr>tg_download := (\<lambda>t file_id. Inl ''timed out'')\<rparr>"

definition offline_services :: services where
  "offline_services = no_download_services\<lparr>tg_reply_text := (\<lambda>t r. Some ''timed out'')\<rparr>"

definition unauthorized_services :: services where
  "unauthorized_services = stub_services\<lparr>openai_create := (\<lambda>t req. Inl ''401 Unauthorized'')\<rparr>"

definition unauthorized_offline_services :: services where
  "unauthorized_offline_services =
     unauthorized_services\<lparr>tg_reply_text := (\<lambda>t r. Some ''timed out'')\<rparr>"

definition probe_services :: "rat \<Rightarrow> services" where
  "probe_services d = stub_services\<lparr>sf_info_duration := (\<lambda>b. Inr d)\<rparr>"

definition silent_services :: services where
  "silent_services = stub_services\<lparr>sf_read := (\<lambda>b. Inr ([], 16000))\<rparr>"

definition one_file_state :: state where
  "one_file_state = initial_state\<lparr>files := [''a.wav'' \<mapsto> File ''RIFF'']\<rparr>"

definition crlf_services :: services where
  "crlf_services =
     stub_services\<lparr>openai_create := (\<lambda>t req. Inr [CHR ''a'', CR, LF, CHR ''b''])\<rparr>"

section \<open>Sequencing lemmas and the frame of each stage\<close>

lemma temp_not_cache: "\<not> under_cache (temp_file sv fid)"
  by (simp add: under_cache_def temp_file_def cache_dir_def)

lemma cache_file_under: "under_cache (cache_file sv a)"
  by (simp add: under_cache_def cache_file_def cache_dir_def)

lemma cache_dir_under: "under_cache cache_dir"
  by (simp add: under_cache_def)

lemma then_doE:
  assumes "then_do m f st = (r, st'')"
  obtains (raised) e where "m st = (Inl e, st'')" "r = Inl e"
        | (returned) x s where "m st = (Inr x, s)" "f x s = (r, st'')"
  using assms by (auto simp: then_do_def split: prod.splits sum.splits)

lemma try_exceptE:
  assumes "try_except m h st = (r, st'')"
  obtains (caught) e s where "m st = (Inl e, s)" "h e s = (r, st'')"
        | (passed) x where "m st = (Inr x, st'')" "r = Inr x"
  using assms by (auto simp: try_except_def split: prod.splits sum.splits)

lemma undisturbed_refl: "undisturbed T st st"
  by (simp add: undisturbed_def model_loads_def)

lemma undisturbed_trans:
  "undisturbed T st s \<Longrightarrow> undisturbed T s st' \<Longrightarrow> undisturbed T st st'"
  unfolding undisturbed_def model_loads_def
  apply (elim conjE exE)
  apply (intro conjI)
      apply simp
     apply simp
    apply simp
   apply metis
  apply (rule_tac x="cs @ csa" in exI)
  apply simp
  done

lemma undisturbed_mono:
  "undisturbed T st st' \<Longrightarrow> (\<And>p. T p \<Longrightarrow> T' p) \<Longrightarrow> undisturbed T' st st'"
  unfolding undisturbed_def by blast

lemma undisturbed_logger: "undisturbed T st (logger l st)"
  by (simp add: undisturbed_def logger_def model_loads_def)

lemma undisturbed_call: "\<not> is_load c \<Longrightarrow> undisturbed T st (record_call c st)"
  by (simp add: undisturbed_def record_call_def model_loads_def)

lemma undisturbed_then_do:
  assumes "then_do m f st = (r, st'')"
    and "\<And>r s. m st = (r, s) \<Longrightarrow> undisturbed T st s"
    and "\<And>x s. m st = (Inr x, s) \<Longrightarrow> f x s = (r, st'') \<Longrightarrow> undisturbed T s st''"
  shows "undisturbed T st st''"
  using assms(1)
proof (cases rule: then_doE)
  case (raised e)
  then show ?thesis using assms(2) by blast
next
  case (returned x s)
  then show ?thesis using assms(2,3) undisturbed_trans by blast
qed

lemma undisturbed_log_and_raise:
  assumes "try_except m (log_and_raise entry) st = (r, st')"
    and "\<And>r s. m st = (r, s) \<Longrightarrow> undisturbed T st s"
  shows "undisturbed T st st'"
  using assms(1)
proof (cases rule: try_exceptE)
  case (caught e s)
  then have "st' = logger (entry e) s" by (simp add: log_and_raise_def)
  with caught assms(2) show ?thesis 
    using undisturbed_logger undisturbed_trans by blast
next
  case (passed x)
  then show ?thesis using assms(2) by blast
qed

lemma write_bytes_undisturbed:
  "write_bytes p b st = (r, st') \<Longrightarrow> undisturbed (\<lambda>q. q = p) st st'"
  by (auto simp: write_bytes_def undisturbed_def model_loads_def split: option.splits node.splits)

lemma write_bytes_file:
  "write_bytes p b st = (Inr x, st') \<Longrightarrow> files st' p = Some (File b)"
  by (auto simp: write_bytes_def split: option.splits node.splits)

lemma get_file_undisturbed: "get_file sv upd st = (r, st') \<Longrightarrow> undisturbed T st st'"
  by (auto simp: get_file_def intro: undisturbed_call)

lemma download_undisturbed:
  assumes "download_to_drive sv fid p st = (r, st')"
  shows "undisturbed (\<lambda>q. q = p) st st'"
proof (cases "tg_download sv (now st) fid")
  case (Inl d)
  with assms show ?thesis
    by (auto simp: download_to_drive_def intro: undisturbed_call)
next
  case (Inr b)
  with assms have "write_bytes p b (record_call (Download fid) st) = (r, st')"
    by (simp add: download_to_drive_def)
  then have "undisturbed (\<lambda>q. q = p) (record_call (Download fid) st) st'"
    by (rule write_bytes_undisturbed)
  moreover have "undisturbed (\<lambda>q. q = p) st (record_call (Download fid) st)"
    by (simp add: undisturbed_call)
  ultimately show ?thesis
    using undisturbed_trans by blast
qed

lemma download_file:
  "download_to_drive sv fid p st = (Inr x, st') \<Longrightarrow> \<exists>b. files st' p = Some (File b)"
  by (auto simp: download_to_drive_def split: sum.splits dest: write_bytes_file)

lemma reduce_noise_undisturbed: "reduce_noise sv data rate st = (r, st') \<Longrightarrow> undisturbed T st st'"
  by (auto simp: reduce_noise_def intro: undisturbed_call)

lemma sf_write_undisturbed:
  "sf_write sv p data rate st = (r, st') \<Longrightarrow> undisturbed (\<lambda>q. q = p) st st'"
  by (auto simp: sf_write_def split: sum.splits intro: undisturbed_refl write_bytes_undisturbed)

lemma clean_audio_try_undisturbed:
  assumes "clean_audio_try sv inp out st = (r, st')"
  shows "undisturbed (\<lambda>q. q = out) st st'"
proof (cases "read_bytes inp st")
  case (Inl e)
  with assms show ?thesis by (simp add: clean_audio_try_def undisturbed_refl)
next
  case (Inr b)
  show ?thesis
  proof (cases "sf_read sv b")
    case (Inl d)
    with Inr assms show ?thesis by (simp add: clean_audio_try_def undisturbed_refl)
  next
    case (Inr dr)
    obtain data rate where dr: "dr = (data, rate)" by (cases dr)
    show ?thesis
    proof (cases "length data = 0")
      case True
      with \<open>read_bytes inp st = Inr b\<close> Inr dr assms show ?thesis
        by (simp add: clean_audio_try_def undisturbed_refl)
    next
      case False
      with \<open>read_bytes inp st = Inr b\<close> Inr dr assms
      have "then_do (reduce_noise sv data rate) (\<lambda>reduced. sf_write sv out reduced rate) st = (r, st')"
        by (simp add: clean_audio_try_def)
      then show ?thesis
        by (rule undisturbed_then_do)
          (auto intro: reduce_noise_undisturbed sf_write_undisturbed)
    qed
  qed
qed

lemma clean_audio_undisturbed:
  "clean_audio sv inp out st = (r, st') \<Longrightarrow> undisturbed (\<lambda>q. q = out) st st'"
  unfolding clean_audio_def
  by (erule undisturbed_log_and_raise) (rule clean_audio_try_undisturbed)

lemma model_transcribe_undisturbed:
  "model_transcribe sv p st = (r, st') \<Longrightarrow> undisturbed T st st'"
  by (auto simp: model_transcribe_def split: sum.splits intro: undisturbed_call)

lemma transcribe_audio_try_undisturbed:
  "transcribe_audio_try sv p st = (r, st') \<Longrightarrow> undisturbed T st st'"
  by (auto simp: transcribe_audio_try_def split: sum.splits if_splits
      intro: undisturbed_refl model_transcribe_undisturbed)

lemma transcribe_audio_undisturbed:
  "transcribe_audio sv p st = (r, st') \<Longrightarrow> undisturbed T st st'"
  unfolding transcribe_audio_def
  by (erule undisturbed_log_and_raise) (rule transcribe_audio_try_undisturbed)

lemma create_completion_undisturbed:
  "create_completion sv req st = (r, st') \<Longrightarrow> undisturbed T st st'"
  by (auto simp: create_completion_def intro: undisturbed_call)

lemma analyze_text_undisturbed:
  "analyze_text sv text st = (r, st') \<Longrightarrow> undisturbed T st st'"
  unfolding analyze_text_def
  by (erule undisturbed_log_and_raise) (rule create_completion_undisturbed)

lemma makedirs_undisturbed:
  "makedirs p st = (r, st') \<Longrightarrow> undisturbed (\<lambda>q. q = p) st st'"
  by (auto simp: makedirs_def undisturbed_def model_loads_def split: option.splits node.splits)

lemma read_text_undisturbed: "read_text p st = (r, st') \<Longrightarrow> undisturbed T st st'"
  by (auto simp: read_text_def undisturbed_refl split: option.splits node.splits)

lemma generate_protocol_try_undisturbed:
  assumes "generate_protocol_try sv a st = (r, st')"
  shows "undisturbed under_cache st st'"
  using assms unfolding generate_protocol_try_def
proof (rule undisturbed_then_do)
  fix x s
  assume "then_do (write_text (cache_file sv a) x) (\<lambda>_ st. (Inr x, st)) s = (r, st')"
  then show "undisturbed under_cache s st'"
    by (rule undisturbed_then_do)
      (auto simp: write_text_def cache_file_under intro: undisturbed_refl
        undisturbed_mono[OF write_bytes_undisturbed])
qed (rule create_completion_undisturbed)

lemma generate_protocol_undisturbed:
  assumes "generate_protocol sv a st = (r, st')"
  shows "undisturbed under_cache st st'"
  using assms unfolding generate_protocol_def
proof (rule undisturbed_then_do)
  fix r s assume "makedirs cache_dir st = (r, s)"
  then show "undisturbed under_cache st s"
    by (auto simp: cache_dir_under intro: undisturbed_mono[OF makedirs_undisturbed])
next
  fix x s
  assume "(if path_exists s (cache_file sv a) then read_text (cache_file sv a) s
           else try_except (generate_protocol_try sv a) (log_and_raise ProtocolError) s) = (r, st')"
  then show "undisturbed under_cache s st'"
    by (auto split: if_splits intro: read_text_undisturbed
        undisturbed_log_and_raise generate_protocol_try_undisturbed)
qed

section \<open>Download, cleaning and transcription; analysis, generation and delivery\<close>

lemma now_logger: "now (logger l st) = now st"
  by (simp add: now_def logger_def)

lemma undisturbedD:
  assumes "undisturbed T st st'"
  shows "sent st' = sent st"
    and "\<not> T p \<Longrightarrow> files st' p = files st p"
    and "files st p \<noteq> None \<Longrightarrow> files st' p \<noteq> None"
    and "files st p = Some (File b) \<Longrightarrow> \<exists>b'. files st' p = Some (File b')"
    and "\<exists>cs. calls st' = calls st @ cs \<and> model_loads cs = 0"
  using assms unfolding undisturbed_def by blast+

lemma after_download_undisturbed:
  assumes "then_do (clean_audio sv p p)
             (\<lambda>_. then_do (transcribe_audio sv p) (\<lambda>transcript st'. (Inr (p, transcript), st'))) s
           = (r, st1)"
  shows "undisturbed (\<lambda>q. q = p) s st1"
  using assms
proof (rule undisturbed_then_do)
  fix x s'
  assume "then_do (transcribe_audio sv p) (\<lambda>transcript st'. (Inr (p, transcript), st')) s' = (r, st1)"
  then show "undisturbed (\<lambda>q. q = p) s' st1"
    by (rule undisturbed_then_do) (auto intro: transcribe_audio_undisturbed undisturbed_refl)
qed (rule clean_audio_undisturbed)

lemma after_download_result:
  assumes "then_do (clean_audio sv p p)
             (\<lambda>_. then_do (transcribe_audio sv p) (\<lambda>transcript st'. (Inr (p, transcript), st'))) s
           = (Inr (inp, tr), st1)"
  shows "inp = p"
  using assms by (auto elim!: then_doE)

lemma fetch_transcript_cases:
  assumes "fetch_transcript sv upd st = (r, st1)"
  obtains (no_sender) "sender upd = None" "r = Inl AttributeError" "st1 = st"
  | (no_file) d u where "tg_get_file sv (now st) upd = Inl d" "r = Inl (LibraryError d)"
      "st1 = record_call GetFile (logger (AudioReceived (username u) (user_id u)) st)"
      "sender upd = Some u"
  | (no_download) fid e u where "tg_get_file sv (now st) upd = Inr fid" "r = Inl e"
      "download_to_drive sv fid (temp_file sv fid)
         (record_call GetFile (logger (AudioReceived (username u) (user_id u)) st)) = (Inl e, st1)"
      "sender upd = Some u"
  | (downloaded) fid s u where "tg_get_file sv (now st) upd = Inr fid"
      "download_to_drive sv fid (temp_file sv fid)
         (record_call GetFile (logger (AudioReceived (username u) (user_id u)) st)) = (Inr (), s)"
      "then_do (clean_audio sv (temp_file sv fid) (temp_file sv fid))
         (\<lambda>_. then_do (transcribe_audio sv (temp_file sv fid))
            (\<lambda>transcript st'. (Inr (temp_file sv fid, transcript), st'))) s = (r, st1)"
      "sender upd = Some u"
proof (cases "sender upd")
  case None
  with assms show ?thesis
    using no_sender by (auto simp: fetch_transcript_def sender_def split: option.splits)
next
  case (Some u)
  let ?s0 = "logger (AudioReceived (username u) (user_id u)) st"
  from Some assms have "download_and_transcribe sv upd ?s0 = (r, st1)"
    by (auto simp: fetch_transcript_def sender_def split: option.splits)
  from this[unfolded download_and_transcribe_def] show ?thesis
  proof (cases rule: then_doE)
    case (raised e)
    then show ?thesis
      using no_file[OF _ _ _ Some]
      by (auto simp: get_file_def library_def now_logger split: sum.splits)
  next
    case (returned fid s)
    from returned(1) have fid: "tg_get_file sv (now st) upd = Inr fid"
      and s: "s = record_call GetFile ?s0"
      by (auto simp: get_file_def library_def now_logger split: sum.splits)
    from returned(2) show ?thesis
    proof (cases rule: then_doE)
      case (raised e)
      with fid s show ?thesis using no_download[OF _ _ _ Some] by simp
    next
      case (returned x s')
      with fid s show ?thesis using downloaded[OF _ _ _ Some] by simp
    qed
  qed
qed

lemma fetch_transcript_frame:
  assumes "fetch_transcript sv upd st = (r, st1)"
  shows "undisturbed (\<lambda>q. \<exists>fid. tg_get_file sv (now st) upd = Inr fid \<and> q = temp_file sv fid) st st1"
    (is "undisturbed ?T st st1")
proof -
  have s0: "undisturbed ?T st (record_call GetFile (logger l st))" for l
    using undisturbed_trans[OF undisturbed_logger undisturbed_call] by simp
  from assms show ?thesis
  proof (cases rule: fetch_transcript_cases)
    case no_sender
    then show ?thesis by (simp add: undisturbed_refl)
  next
    case (no_file d u)
    with s0 show ?thesis by simp
  next
    case (no_download fid e u)
    from download_undisturbed[OF no_download(3)] no_download(1)
    have "undisturbed ?T (record_call GetFile (logger (AudioReceived (username u) (user_id u)) st)) st1"
      by (auto intro: undisturbed_mono)
    with s0 show ?thesis by (rule undisturbed_trans)
  next
    case (downloaded fid s u)
    from download_undisturbed[OF downloaded(2)] downloaded(1)
    have "undisturbed ?T (record_call GetFile (logger (AudioReceived (username u) (user_id u)) st)) s"
      by (auto intro: undisturbed_mono)
    moreover from after_download_undisturbed[OF downloaded(3)] downloaded(1)
    have "undisturbed ?T s st1" by (auto intro: undisturbed_mono)
    ultimately show ?thesis using s0 undisturbed_trans by blast
  qed
qed

lemma fetch_transcript_downloaded:
  assumes "fetch_transcript sv upd st = (r, st1)"
    and "tg_get_file sv (now st) upd = Inr fid"
    and "tg_download sv (Suc (now st)) fid = Inr b"
    and "files st (temp_file sv fid) \<noteq> Some Dir"
    and "sender upd \<noteq> None"
  shows "\<exists>b'. files st1 (temp_file sv fid) = Some (File b')"
  using assms(1)
proof (cases rule: fetch_transcript_cases)
  case no_sender
  with assms(5) show ?thesis by simp
next
  case (no_file d u)
  with assms(2) show ?thesis by simp
next
  case (no_download fid' e u)
  with assms(2,3,4) show ?thesis
    by (auto simp: download_to_drive_def write_bytes_def now_def record_call_def logger_def
        split: option.splits node.splits)
next
  case (downloaded fid' s u)
  with assms(2) have "fid' = fid" by simp
  with downloaded download_file obtain b' where "files s (temp_file sv fid) = Some (File b')"
    by blast
  with undisturbedD(4)[OF after_download_undisturbed[OF downloaded(3)]] \<open>fid' = fid\<close>
  show ?thesis by blast
qed

lemma fetch_transcript_sender:
  assumes "fetch_transcript sv upd st = (Inr x, st1)"
  shows "\<exists>u. sender upd = Some u"
  using assms by (cases rule: fetch_transcript_cases) simp_all

lemma fetch_transcript_success:
  assumes "fetch_transcript sv upd st = (Inr (inp, tr), st1)"
  shows "\<exists>fid b. tg_get_file sv (now st) upd = Inr fid \<and> inp = temp_file sv fid \<and>
           files st1 inp = Some (File b)"
  using assms
proof (cases rule: fetch_transcript_cases)
  case (downloaded fid s)
  from download_file[OF downloaded(2)] obtain b where "files s (temp_file sv fid) = Some (File b)"
    by blast
  with undisturbedD(4)[OF after_download_undisturbed[OF downloaded(3)]]
  obtain b' where "files st1 (temp_file sv fid) = Some (File b')" by blast
  with downloaded(1) after_download_result[OF downloaded(3)] show ?thesis by simp
qed simp_all

lemma deliver_protocol_cases:
  assumes "deliver_protocol sv inp tr st1 = (r, t)"
  obtains (analysis_failed) e where "analyze_text sv tr st1 = (Inl e, t)" "r = Inl e"
  | (generation_failed) a s2 e where "analyze_text sv tr st1 = (Inr a, s2)"
      "generate_protocol sv a s2 = (Inl e, t)" "r = Inl e"
  | (reply_failed) a s2 p s3 e where "analyze_text sv tr st1 = (Inr a, s2)"
      "generate_protocol sv a s2 = (Inr p, s3)"
      "reply_text sv (ProtocolReply p) s3 = (Inl e, t)" "r = Inl e"
  | (replied) a s2 p s3 s4 where "analyze_text sv tr st1 = (Inr a, s2)"
      "generate_protocol sv a s2 = (Inr p, s3)"
      "reply_text sv (ProtocolReply p) s3 = (Inr (), s4)" "os_remove inp s4 = (r, t)"
  using assms unfolding deliver_protocol_def
  by (elim then_doE) auto

lemma reply_text_raised:
  assumes "reply_text sv msg s = (Inl e, s')"
  shows "sent s' = sent s" and "files s' = files s" and "logged s' = logged s"
    and "calls s' = calls s @ [SendReply msg]"
    and "\<exists>d. tg_reply_text sv (now s) msg = Some d \<and> e = LibraryError d"
  using assms by (auto simp: reply_text_def record_call_def split: option.splits)

lemma reply_text_returned:
  assumes "reply_text sv msg s = (Inr x, s')"
  shows "sent s' = sent s @ [msg]" and "files s' = files s" and "logged s' = logged s"
    and "calls s' = calls s @ [SendReply msg]"
    and "tg_reply_text sv (now s) msg = None"
  using assms by (auto simp: reply_text_def record_call_def split: option.splits)

lemma os_remove_file:
  "files s p = Some (File b) \<Longrightarrow> os_remove p s = (Inr (), s\<lparr>files := (files s)(p := None)\<rparr>)"
  by (simp add: os_remove_def)

lemma generation_undisturbed:
  assumes "analyze_text sv tr st1 = (Inr a, s2)" and "generate_protocol sv a s2 = (r, s3)"
  shows "undisturbed under_cache st1 s3"
  using analyze_text_undisturbed[OF assms(1)] generate_protocol_undisturbed[OF assms(2)]
  by (rule undisturbed_trans)

lemma deliver_protocol_returned:
  assumes "deliver_protocol sv inp tr st1 = (Inr x, t)"
    and "files st1 inp = Some (File b)" and "\<not> under_cache inp"
  shows "\<exists>a s2 p s3. analyze_text sv tr st1 = (Inr a, s2) \<and> generate_protocol sv a s2 = (Inr p, s3) \<and>
           sent t = sent st1 @ [ProtocolReply p] \<and> files t = (files s3)(inp := None)"
  using assms(1)
proof (cases rule: deliver_protocol_cases)
  case (replied a s2 p s3 s4)
  from undisturbedD(4)[OF generation_undisturbed[OF replied(1,2)] assms(2)]
  obtain b' where "files s3 inp = Some (File b')" by blast
  with reply_text_returned(2)[OF replied(3)] have "files s4 inp = Some (File b')" by simp
  from os_remove_file[OF this] replied(4) have "t = s4\<lparr>files := (files s4)(inp := None)\<rparr>" by simp
  with reply_text_returned(1,2)[OF replied(3)] undisturbedD(1)[OF generation_undisturbed[OF replied(1,2)]]
  have "sent t = sent st1 @ [ProtocolReply p]" "files t = (files s3)(inp := None)" by simp_all
  with replied show ?thesis by blast
qed simp_all

lemma deliver_protocol_raised:
  assumes "deliver_protocol sv inp tr st1 = (Inl e, t)"
    and "files st1 inp = Some (File b)" and "\<not> under_cache inp"
  shows "sent t = sent st1" and "files st1 p \<noteq> None \<Longrightarrow> files t p \<noteq> None"
    and "\<not> under_cache p \<Longrightarrow> files t p = files st1 p"
proof -
  have "sent t = sent st1 \<and> (files st1 p \<noteq> None \<longrightarrow> files t p \<noteq> None) \<and>
        (\<not> under_cache p \<longrightarrow> files t p = files st1 p)"
    using assms(1)
  proof (cases rule: deliver_protocol_cases)
    case (analysis_failed e')
    from analyze_text_undisturbed[OF this(1), of under_cache] show ?thesis
      unfolding undisturbed_def by blast
  next
    case (generation_failed a s2 e')
    from generation_undisturbed[OF this(1,2)] show ?thesis
      unfolding undisturbed_def by blast
  next
    case (reply_failed a s2 p' s3 e')
    from generation_undisturbed[OF this(1,2)] reply_text_raised(1,2)[OF this(3)] show ?thesis
      unfolding undisturbed_def by simp
  next
    case (replied a s2 p' s3 s4)
    from undisturbedD(4)[OF generation_undisturbed[OF replied(1,2)] assms(2)]
    obtain b' where "files s3 inp = Some (File b')" by blast
    with reply_text_returned(2)[OF replied(3)] have "files s4 inp = Some (File b')" by simp
    from os_remove_file[OF this] replied(4) show ?thesis by simp
  qed
  then show "sent t = sent st1" and "files st1 p \<noteq> None \<Longrightarrow> files t p \<noteq> None"
    and "\<not> under_cache p \<Longrightarrow> files t p = files st1 p" by blast+
qed

lemma handle_audio_try_cases:
  assumes "handle_audio_try sv upd st = (r, t)"
  obtains (fetch_failed) e where "fetch_transcript sv upd st = (Inl e, t)" "r = Inl e"
  | (fetched) inp tr st1 where "fetch_transcript sv upd st = (Inr (inp, tr), st1)"
      "deliver_protocol sv inp tr st1 = (r, t)"
  using assms unfolding handle_audio_try_def
  by (elim then_doE) auto

section \<open>The request handler\<close>

lemmas run_defs = then_do_def try_except_def logger_def log_and_raise_def now_def record_call_def
  library_def read_bytes_def write_bytes_def path_exists_def makedirs_def os_remove_def
  read_text_def write_text_def load_model_def sf_write_def reduce_noise_def clean_audio_try_def
  clean_audio_def model_transcribe_def transcribe_audio_try_def transcribe_audio_def
  create_completion_def analysis_request_def analyze_text_def protocol_request_def cache_dir_def
  cache_file_def generate_protocol_try_def generate_protocol_def get_file_def
  download_to_drive_def reply_text_def temp_file_def deliver_protocol_def
  download_and_transcribe_def fetch_transcript_def
  handle_audio_try_def on_failure_def handle_audio_def MAX_AUDIO_DURATION_def GPT_MODEL_def
  delivered_def new_log_def new_calls_def
  stub_services_def demo_update_def initial_state_def

lemma handle_audio_try_raised:
  assumes "handle_audio_try sv upd st = (Inl e, t)"
  shows "sent t = sent st" and "files st p \<noteq> None \<Longrightarrow> files t p \<noteq> None"
    and "\<not> under_cache p \<Longrightarrow> (\<And>fid. tg_get_file sv (now st) upd = Inr fid \<Longrightarrow> p \<noteq> temp_file sv fid)
         \<Longrightarrow> files t p = files st p"
proof -
  have "sent t = sent st \<and> (files st p \<noteq> None \<longrightarrow> files t p \<noteq> None) \<and>
        (\<not> under_cache p \<and> (\<forall>fid. tg_get_file sv (now st) upd = Inr fid \<longrightarrow> p \<noteq> temp_file sv fid)
         \<longrightarrow> files t p = files st p)"
    using assms
  proof (cases rule: handle_audio_try_cases)
    case (fetch_failed e')
    from fetch_transcript_frame[OF this(1)] show ?thesis
      unfolding undisturbed_def by blast
  next
    case (fetched inp tr st1)
    from fetch_transcript_success[OF fetched(1)] obtain fid b
      where fid: "tg_get_file sv (now st) upd = Inr fid" "inp = temp_file sv fid"
        "files st1 inp = Some (File b)" by blast
    then have nc: "\<not> under_cache inp" by (simp add: temp_not_cache)
    note d = deliver_protocol_raised[OF fetched(2) fid(3) nc]
    note f = fetch_transcript_frame[OF fetched(1)]
    have "sent t = sent st" using d(1) undisturbedD(1)[OF f] by simp
    moreover have "files st p \<noteq> None \<longrightarrow> files t p \<noteq> None"
      using d(2) undisturbedD(3)[OF f] by blast
    moreover have "\<not> under_cache p \<and> (\<forall>fid. tg_get_file sv (now st) upd = Inr fid \<longrightarrow> p \<noteq> temp_file sv fid)
         \<longrightarrow> files t p = files st p"
      using d(3)[of p] undisturbedD(2)[OF f, of p] by auto
    ultimately show ?thesis by blast
  qed
  then show "sent t = sent st" and "files st p \<noteq> None \<Longrightarrow> files t p \<noteq> None"
    and "\<not> under_cache p \<Longrightarrow> (\<And>fid. tg_get_file sv (now st) upd = Inr fid \<Longrightarrow> p \<noteq> temp_file sv fid)
         \<Longrightarrow> files t p = files st p" by blast+
qed

lemma handle_audio_try_returned:
  assumes "handle_audio_try sv upd st = (Inr x, t)"
  obtains fid tr st1 a s2 p s3 where
    "tg_get_file sv (now st) upd = Inr fid"
    "fetch_transcript sv upd st = (Inr (temp_file sv fid, tr), st1)"
    "analyze_text sv tr st1 = (Inr a, s2)" "generate_protocol sv a s2 = (Inr p, s3)"
    "sent t = sent st @ [ProtocolReply p]" "files t = (files s3)(temp_file sv fid := None)"
    "undisturbed (\<lambda>q. q = temp_file sv fid) st st1" "undisturbed under_cache st1 s3"
  using assms
proof (cases rule: handle_audio_try_cases)
  case (fetched inp tr st1)
  from fetch_transcript_success[OF fetched(1)] obtain fid b
    where fid: "tg_get_file sv (now st) upd = Inr fid" "inp = temp_file sv fid"
      "files st1 inp = Some (File b)" by blast
  then have nc: "\<not> under_cache inp" by (simp add: temp_not_cache)
  from deliver_protocol_returned[OF fetched(2) fid(3) nc] obtain a s2 p s3
    where d: "analyze_text sv tr st1 = (Inr a, s2)" "generate_protocol sv a s2 = (Inr p, s3)"
      "sent t = sent st1 @ [ProtocolReply p]" "files t = (files s3)(inp := None)" by blast
  note f = fetch_transcript_frame[OF fetched(1)]
  have 1: "undisturbed (\<lambda>q. q = temp_file sv fid) st st1"
    using f fid(1) by (auto intro: undisturbed_mono)
  have 2: "undisturbed under_cache st1 s3"
    using d(1,2) by (rule generation_undisturbed)
  have 3: "sent t = sent st @ [ProtocolReply p]"
    using d(3) undisturbedD(1)[OF f] by simp
  have 4: "fetch_transcript sv upd st = (Inr (temp_file sv fid, tr), st1)"
    using fetched(1) fid(2) by simp
  have 5: "files t = (files s3)(temp_file sv fid := None)"
    using d(4) fid(2) by simp
  from that[OF fid(1) 4 d(1,2) 3 5 1 2] show ?thesis .
qed simp

lemma handle_audio_cases:
  assumes "handle_audio sv upd st = (r, st')"
  obtains (completed) "handle_audio_try sv upd st = (Inr (), st')" "r = Inr ()"
  | (failed) e t where "handle_audio_try sv upd st = (Inl e, t)"
      "on_failure sv upd e t = (r, st')"
  using assms unfolding handle_audio_def
  by (cases rule: try_exceptE) auto

lemma on_failure_effect:
  assumes "on_failure sv upd e t = (r, st')"
  shows "files st' = files t" and "logged st' = logged t @ [ProcessingError e]"
    and "calls st' = calls t @ (if message upd = None then [] else [SendReply FailureNotice])"
    and "sent st' = sent t @ (if r = Inr () then [FailureNotice] else [])"
    and "r = (case message upd of
                None \<Rightarrow> Inl AttributeError
              | Some m \<Rightarrow>
                  (case tg_reply_text sv (now t) FailureNotice of
                     None \<Rightarrow> Inr () | Some d \<Rightarrow> Inl (LibraryError d)))"
  using assms
  by (auto simp: on_failure_def reply_text_def logger_def record_call_def now_def
      split: option.splits)

lemma failing_run_delivers:
  assumes "handle_audio_try sv upd st = (Inl e, t)" and "handle_audio sv upd st = (r, st')"
  shows "new_calls t st' = (if message upd = None then [] else [SendReply FailureNotice])"
    and "delivered st st' = (if r = Inr () then [FailureNotice] else [])"
    and "logged st' = logged t @ [ProcessingError e]"
    and "r = (case message upd of
                None \<Rightarrow> Inl AttributeError
              | Some m \<Rightarrow>
                  (case tg_reply_text sv (now t) FailureNotice of
                     None \<Rightarrow> Inr () | Some d \<Rightarrow> Inl (LibraryError d)))"
proof -
  from assms have n: "on_failure sv upd e t = (r, st')"
    by (auto elim: handle_audio_cases)
  note f = on_failure_effect[OF n]
  from f(3) show "new_calls t st' = (if message upd = None then [] else [SendReply FailureNotice])"
    by (simp add: new_calls_def)
  from f(4) handle_audio_try_raised(1)[OF assms(1)]
  show "delivered st st' = (if r = Inr () then [FailureNotice] else [])"
    by (simp add: delivered_def)
  from f(2) show "logged st' = logged t @ [ProcessingError e]" .
  from f(5) show "r = (case message upd of
                None \<Rightarrow> Inl AttributeError
              | Some m \<Rightarrow>
                  (case tg_reply_text sv (now t) FailureNotice of
                     None \<Rightarrow> Inr () | Some d \<Rightarrow> Inl (LibraryError d)))" .
qed

section \<open>The cache file and its name\<close>

lemma CR_neq_LF: "CR \<noteq> LF"
  by (simp add: CR_def LF_def)

lemma universal_newlines_id: "CR \<notin> set s \<Longrightarrow> universal_newlines s = s"
  by (induction s rule: universal_newlines.induct) auto

lemma universal_newlines_no_CR: "CR \<notin> set (universal_newlines s)"
  by (induction s rule: universal_newlines.induct) (auto simp: CR_neq_LF)

lemma universal_newlines_idem:
  "universal_newlines (universal_newlines s) = universal_newlines s"
  by (simp add: universal_newlines_id universal_newlines_no_CR)


lemma cache_file_not_dir: "cache_file sv a \<noteq> cache_dir"
  by (simp add: cache_file_def)

text \<open>
  The name of the cache file is computed from the analysis text alone, and two texts get
  the same name exactly when their digests are equal. Whether two given texts have
  different digests is a property of MD5, which is a parameter here.
\<close>

lemma cache_file_inj:
  "cache_file sv a = cache_file sv b \<longleftrightarrow> md5_hexdigest sv a = md5_hexdigest sv b"
  by (simp add: cache_file_def)


text \<open>
  After a call that returned, the next call with the same analysis text is a cache hit:
  it changes nothing, calls no collaborator, and returns the first result as text mode
  reads it back, which is the first result itself when that holds no carriage return.
\<close>

lemma generate_protocol_second_call:
  assumes "generate_protocol sv a st = (Inr r, st1)"
  shows "generate_protocol sv a st1 = (Inr (universal_newlines r), st1)"
  using assms cache_file_not_dir[of sv a]
  by (auto simp: generate_protocol_def generate_protocol_try_def then_do_def try_except_def
      makedirs_def path_exists_def read_text_def create_completion_def library_def
      log_and_raise_def write_text_def write_bytes_def record_call_def universal_newlines_idem
      split: option.splits node.splits sum.splits if_splits prod.splits)

lemma generate_protocol_second_call_same:
  assumes "generate_protocol sv a st = (Inr r, st1)" and "CR \<notin> set r"
  shows "generate_protocol sv a st1 = (Inr r, st1)"
  using generate_protocol_second_call[OF assms(1)] assms(2)
  by (simp add: universal_newlines_id)

section \<open>Model loads\<close>

lemma loads_nothing_refl: "loads_nothing st st"
  by (simp add: loads_nothing_def model_loads_def)

lemma loads_nothing_trans:
  "loads_nothing st s \<Longrightarrow> loads_nothing s st' \<Longrightarrow> loads_nothing st st'"
  unfolding loads_nothing_def model_loads_def
  by (elim exE conjE, rule_tac x="cs @ csa" in exI) simp

lemma undisturbed_loads_nothing: "undisturbed T st st' \<Longrightarrow> loads_nothing st st'"
  by (simp add: undisturbed_def loads_nothing_def)

lemma reply_text_loads_nothing: "reply_text sv msg s = (r, s') \<Longrightarrow> loads_nothing s s'"
  by (auto simp: reply_text_def record_call_def loads_nothing_def model_loads_def
      split: option.splits)

lemma os_remove_loads_nothing: "os_remove p s = (r, s') \<Longrightarrow> loads_nothing s s'"
  by (auto simp: os_remove_def loads_nothing_def model_loads_def
      split: option.splits node.splits)

lemma deliver_protocol_loads_nothing:
  assumes "deliver_protocol sv inp tr st1 = (r, t)"
  shows "loads_nothing st1 t"
  using assms
proof (cases rule: deliver_protocol_cases)
  case (analysis_failed e)
  from analyze_text_undisturbed[OF this(1), of under_cache] show ?thesis
    by (rule undisturbed_loads_nothing)
next
  case (generation_failed a s2 e)
  from generation_undisturbed[OF this(1,2)] show ?thesis
    by (rule undisturbed_loads_nothing)
next
  case (reply_failed a s2 p s3 e)
  from undisturbed_loads_nothing[OF generation_undisturbed[OF this(1,2)]]
    reply_text_loads_nothing[OF this(3)]
  show ?thesis by (rule loads_nothing_trans)
next
  case (replied a s2 p s3 s4)
  from undisturbed_loads_nothing[OF generation_undisturbed[OF this(1,2)]]
    reply_text_loads_nothing[OF this(3)]
  have "loads_nothing st1 s4" by (rule loads_nothing_trans)
  with os_remove_loads_nothing[OF replied(4)] show ?thesis
    using loads_nothing_trans by blast
qed

lemma handle_audio_try_loads_nothing:
  assumes "handle_audio_try sv upd st = (r, t)"
  shows "loads_nothing st t"
  using assms
proof (cases rule: handle_audio_try_cases)
  case (fetch_failed e)
  from fetch_transcript_frame[OF this(1)] show ?thesis
    by (rule undisturbed_loads_nothing)
next
  case (fetched inp tr st1)
  from undisturbed_loads_nothing[OF fetch_transcript_frame[OF this(1)]]
    deliver_protocol_loads_nothing[OF this(2)]
  show ?thesis by (rule loads_nothing_trans)
qed

lemma handle_audio_loads_nothing:
  assumes "handle_audio sv upd st = (r, st')"
  shows "loads_nothing st st'"
  using assms
proof (cases rule: handle_audio_cases)
  case completed
  then show ?thesis by (simp add: handle_audio_try_loads_nothing)
next
  case (failed e t)
  have "loads_nothing t (logger (ProcessingError e) t)"
    by (simp add: loads_nothing_def logger_def model_loads_def)
  moreover have "loads_nothing (logger (ProcessingError e) t) st'"
    using failed(2) reply_text_loads_nothing
    by (auto simp: on_failure_def loads_nothing_refl split: option.splits)
  ultimately show ?thesis
    using handle_audio_try_loads_nothing[OF failed(1)] loads_nothing_trans by blast
qed

lemma run_polling_loads_nothing:
  "loads_nothing st (run_polling (handle_audio sv) us st)"
proof (induction us arbitrary: st)
  case Nil
  show ?case by (simp add: loads_nothing_refl)
next
  case (Cons u us)
  have "loads_nothing st (snd (handle_audio sv u st))"
    by (rule handle_audio_loads_nothing[OF prod.collapse[symmetric]])
  from this Cons[of "snd (handle_audio sv u st)"]
  have "loads_nothing st (run_polling (handle_audio sv) us (snd (handle_audio sv u st)))"
    by (rule loads_nothing_trans)
  then show ?case by simp
qed

text \<open>
  In \<^verbatim>\<open>neuro_secretary2.py\<close> the model load of line 26 is the first collaborator call of
  the process, and no call after it is a model load, whatever messages arrive.
\<close>

lemma process2_single_load:
  "\<exists>cs. calls (process2 sv us st) = calls st @ LoadModel ''base'' # cs \<and> model_loads cs = 0"
proof (cases "whisper_load_model sv ''base''")
  case None
  let ?s = "record_call (LoadModel ''base'') st"
  from None have "process2 sv us st = run_polling (handle_audio sv) us ?s"
    by (simp add: process2_def load_model_def)
  with run_polling_loads_nothing[of ?s sv us] show ?thesis
    by (auto simp: loads_nothing_def record_call_def)
next
  case (Some d)
  then show ?thesis
    by (simp add: process2_def load_model_def record_call_def model_loads_def)
qed

section \<open>Runs of the test doubles\<close>

lemma pair_of_fst: "fst p = a \<Longrightarrow> p = (a, snd p)"
  by auto

lemma stub_run:
  "fst (handle_audio_try stub_services demo_update initial_state) = Inr ()"
  by (simp add: run_defs)

lemma unauthorized_run:
  "fst (handle_audio_try unauthorized_services demo_update initial_state)
     = Inl (LibraryError ''401 Unauthorized'')"
  by (simp add: run_defs unauthorized_services_def)

lemma no_download_run:
  "fst (handle_audio_try no_download_services demo_update initial_state)
     = Inl (LibraryError ''timed out'')"
  by (simp add: run_defs no_download_services_def)

lemma no_download_notice:
  "fst (handle_audio no_download_services demo_update initial_state) = Inr ()"
  by (simp add: run_defs no_download_services_def)

lemma unauthorized_notice:
  "fst (handle_audio unauthorized_services demo_update initial_state) = Inr ()"
  by (simp add: run_defs unauthorized_services_def)

lemma unauthorized_fetch:
  "fst (fetch_transcript unauthorized_services demo_update initial_state)
     = Inr (''temp_f1.wav'', ''Alice: ship v2. Bob: QA.'')"
  by (simp add: run_defs unauthorized_services_def)

section \<open>Cache idempotence\<close>

text \<open>
  C1 fails on the code. The completion service answers the protocol request with a text
  that holds a carriage return and a line feed. The first call of \<^verbatim>\<open>generate_protocol\<close>
  returns that text and stores it; the second call makes no collaborator call and returns
  the stored text as text mode reads it, with the line ending translated: the two results
  differ.
\<close>

theorem cache_hit_translates_line_endings:
  "fst (generate_protocol crlf_services ''analysis'' initial_state)
     = Inr [CHR ''a'', CR, LF, CHR ''b''] \<and>
   fst (generate_protocol crlf_services ''analysis''
          (snd (generate_protocol crlf_services ''analysis'' initial_state)))
     = Inr [CHR ''a'', LF, CHR ''b''] \<and>
   calls (snd (generate_protocol crlf_services ''analysis''
          (snd (generate_protocol crlf_services ''analysis'' initial_state))))
     = calls (snd (generate_protocol crlf_services ''analysis'' initial_state)) \<and>
   [CHR ''a'', CR, LF, CHR ''b''] \<noteq> [CHR ''a'', LF, CHR ''b'']"
  by (simp add: run_defs crlf_services_def CR_def LF_def)

section \<open>The duration boundary\<close>

text \<open>
  C2. The ceiling is 7200 seconds. A file whose measured duration is at most 7200
  seconds, 7200 included, goes on to inference: the model is called once and its answer
  is the result. A longer file is refused with the \<^verbatim>\<open>ValueError\<close> of line 48 (the
  specification's AudioTooLongError), which carries the measured and the allowed
  duration; the error is logged, the model is not called and nothing else changes.
\<close>

theorem duration_boundary:
  assumes "read_bytes audio_file st = Inr b" and "sf_info_duration sv b = Inr d"
    and "transcribe_audio sv audio_file st = (r, st')"
  shows "MAX_AUDIO_DURATION = 7200 \<and>
         (d \<le> 7200 \<longrightarrow>
            new_calls st st' = [Transcribe] \<and> r = library (whisper_transcribe sv b)) \<and>
         (7200 < d \<longrightarrow>
            r = Inl (ValueError (TooLong d 7200)) \<and> new_calls st st' = [] \<and>
            new_log st st' = [TranscribeError (ValueError (TooLong d 7200))] \<and>
            files st' = files st \<and> sent st' = sent st)"
  using assms
  by (auto simp: transcribe_audio_def transcribe_audio_try_def model_transcribe_def
      try_except_def log_and_raise_def logger_def record_call_def library_def
      MAX_AUDIO_DURATION_def new_calls_def new_log_def split: sum.splits)

theorem duration_boundary_witness:
  "fst (transcribe_audio (probe_services 7200) ''a.wav'' one_file_state)
     = Inr ''Alice: ship v2. Bob: QA.'' \<and>
   new_calls one_file_state (snd (transcribe_audio (probe_services 7200) ''a.wav'' one_file_state))
     = [Transcribe] \<and>
   fst (transcribe_audio (probe_services 7201) ''a.wav'' one_file_state)
     = Inl (ValueError (TooLong 7201 7200)) \<and>
   new_calls one_file_state (snd (transcribe_audio (probe_services 7201) ''a.wav'' one_file_state))
     = []"
proof -
  have f: "read_bytes ''a.wav'' one_file_state = Inr ''RIFF''"
    by (simp add: read_bytes_def one_file_state_def initial_state_def)
  have d: "sf_info_duration (probe_services x) ''RIFF'' = Inr x" for x
    by (simp add: probe_services_def stub_services_def)
  have w: "library (whisper_transcribe (probe_services x) ''RIFF'') = Inr ''Alice: ship v2. Bob: QA.''"
    for x
    by (simp add: probe_services_def stub_services_def library_def)
  from duration_boundary[OF f d prod.collapse[symmetric], of 7200]
    duration_boundary[OF f d prod.collapse[symmetric], of 7201] w
  show ?thesis by simp
qed

section \<open>Empty audio\<close>

text \<open>
  C3. A file that decodes to a buffer of length zero is refused by \<^verbatim>\<open>clean_audio\<close> with
  the \<^verbatim>\<open>ValueError\<close> of line 35 (the specification's EmptyAudioError): the error is
  logged, the noise reduction is not called and no file is written. A file that
  decodes to a non-empty buffer passes the check: the noise reduction is called and
  that error is not the result. In the handler a request that has a sender then ends with
  the failure notice: after the download no collaborator is called but the platform, and the
  temporary file still holds the download.
\<close>

theorem empty_audio_rejected:
  assumes "read_bytes input_file st = Inr b" and "sf_read sv b = Inr (data, rate)"
    and "clean_audio sv input_file output_file st = (r, st')"
  shows "(data = [] \<longrightarrow>
            r = Inl (ValueError EmptyAudio) \<and> new_calls st st' = [] \<and> files st' = files st \<and>
            new_log st st' = [CleanError (ValueError EmptyAudio)]) \<and>
         (data \<noteq> [] \<longrightarrow>
            r \<noteq> Inl (ValueError EmptyAudio) \<and> new_calls st st' = [ReduceNoise]) \<and>
         (data = [] \<longrightarrow>
            (\<forall>upd fid s. sender upd \<noteq> None \<and>
                 tg_get_file sv (now s) upd = Inr fid \<and>
                 tg_download sv (Suc (now s)) fid = Inr b \<and>
                 files s (temp_file sv fid) \<noteq> Some Dir \<longrightarrow>
               new_calls s (snd (handle_audio sv upd s))
                 = [GetFile, Download fid, SendReply FailureNotice] \<and>
               files (snd (handle_audio sv upd s)) = (files s)(temp_file sv fid \<mapsto> File b)))"
proof -
  have empty: "r = Inl (ValueError EmptyAudio) \<and> new_calls st st' = [] \<and> files st' = files st \<and>
               new_log st st' = [CleanError (ValueError EmptyAudio)]" if "data = []"
    using assms that
    by (auto simp: clean_audio_def clean_audio_try_def try_except_def log_and_raise_def
        logger_def new_calls_def new_log_def)
  have nonempty: "r \<noteq> Inl (ValueError EmptyAudio) \<and> new_calls st st' = [ReduceNoise]"
    if "data \<noteq> []"
    using assms that
    by (auto simp: clean_audio_def clean_audio_try_def try_except_def log_and_raise_def
        logger_def new_calls_def then_do_def reduce_noise_def sf_write_def write_bytes_def
        record_call_def library_def
        split: sum.splits option.splits node.splits)
  have handler: "new_calls s (snd (handle_audio sv upd s))
                   = [GetFile, Download fid, SendReply FailureNotice] \<and>
                 files (snd (handle_audio sv upd s)) = (files s)(temp_file sv fid \<mapsto> File b)"
    if "data = []" "sender upd \<noteq> None" "tg_get_file sv (now s) upd = Inr fid"
      "tg_download sv (Suc (now s)) fid = Inr b" "files s (temp_file sv fid) \<noteq> Some Dir"
    for upd fid s
  proof -
    from that(2) obtain m u where "message upd = Some m" "from_user m = Some u"
      by (auto simp: sender_def split: option.splits)
    with that assms(2) show ?thesis
      by (auto simp: handle_audio_def handle_audio_try_def fetch_transcript_def on_failure_def
          download_and_transcribe_def
          get_file_def download_to_drive_def clean_audio_def clean_audio_try_def reply_text_def
          try_except_def then_do_def log_and_raise_def logger_def record_call_def now_def
          library_def read_bytes_def write_bytes_def new_calls_def
          split: option.splits node.splits)
  qed
  from empty nonempty handler show ?thesis by blast
qed

theorem empty_audio_rejected_witness:
  "fst (clean_audio silent_services ''a.wav'' ''a.wav'' one_file_state)
     = Inl (ValueError EmptyAudio) \<and>
   files (snd (clean_audio silent_services ''a.wav'' ''a.wav'' one_file_state))
     = files one_file_state \<and>
   new_calls one_file_state (snd (clean_audio stub_services ''a.wav'' ''a.wav'' one_file_state))
     = [ReduceNoise] \<and>
   new_calls initial_state (snd (handle_audio silent_services demo_update initial_state))
     = [GetFile, Download ''f1'', SendReply FailureNotice]"
proof -
  have f: "read_bytes ''a.wav'' one_file_state = Inr ''RIFF''"
    by (simp add: read_bytes_def one_file_state_def initial_state_def)
  have e: "sf_read silent_services b = Inr ([], 16000)" for b
    by (simp add: silent_services_def stub_services_def)
  have n: "sf_read stub_services ''RIFF'' = Inr ([0, 0, 0, 0], 16000)"
    by (simp add: stub_services_def)
  have g: "sender demo_update \<noteq> None"
    "tg_get_file silent_services (now initial_state) demo_update = Inr ''f1''"
    "tg_download silent_services (Suc (now initial_state)) ''f1'' = Inr ''f1''"
    "files initial_state (temp_file silent_services ''f1'') \<noteq> Some Dir"
    by (simp_all add: silent_services_def stub_services_def demo_update_def initial_state_def
        sender_def)
  note a = empty_audio_rejected[OF f e prod.collapse[symmetric], of "''a.wav''"]
  note b = empty_audio_rejected[OF f n prod.collapse[symmetric], of "''a.wav''"]
  have f1: "read_bytes ''a.wav'' (one_file_state\<lparr>files := [''a.wav'' \<mapsto> File ''f1'']\<rparr>) = Inr ''f1''"
    by (simp add: read_bytes_def)
  note c = empty_audio_rejected[OF f1 e prod.collapse[symmetric], of "''a.wav''"]
  from a b c g show ?thesis by simp
qed

section \<open>The outcome of a run\<close>




section \<open>A failing analysis call\<close>

text \<open>
  C5 as the claim states it fails: the download, the cleaning and the transcription
  succeed, the analysis call raises, and the platform refuses the send of the failure
  notice. The error is logged, but the user receives nothing and the send's exception
  leaves the handler.
\<close>

theorem analysis_failure_notice_counterexample:
  "fst (fetch_transcript unauthorized_offline_services demo_update initial_state)
     = Inr (''temp_f1.wav'', ''Alice: ship v2. Bob: QA.'') \<and>
   logged (snd (handle_audio unauthorized_offline_services demo_update initial_state))
     = [AudioReceived ''alice'' 7, AnalysisError (LibraryError ''401 Unauthorized''),
        ProcessingError (LibraryError ''401 Unauthorized'')] \<and>
   sent (snd (handle_audio unauthorized_offline_services demo_update initial_state)) = [] \<and>
   fst (handle_audio unauthorized_offline_services demo_update initial_state)
     = Inl (LibraryError ''timed out'')"
  by (simp add: run_defs unauthorized_offline_services_def unauthorized_services_def)

text \<open>
  C5, amended. Take a request whose download, cleaning and transcription succeeded and
  whose analysis call raises with detail \<open>d\<close>. The error is logged twice with that detail,
  by \<^verbatim>\<open>analyze_text\<close> and by the handler; after the analysis call the only call is the
  send of the failure notice, so no protocol is requested; every path under the cache
  directory holds what it held before the request; nothing but the failure notice is
  delivered; and when the platform accepts the send the handler returns and the user
  has received the notice.
\<close>

theorem analysis_failure_atomic:
  assumes "fetch_transcript sv upd st = (Inr (input_file, transcript), st1)"
    and "openai_create sv (now st1) (analysis_request transcript) = Inl d"
    and "handle_audio sv upd st = (r, st')"
  shows "new_log st1 st' = [AnalysisError (LibraryError d), ProcessingError (LibraryError d)] \<and>
         new_calls st1 st' = [Completion (analysis_request transcript), SendReply FailureNotice] \<and>
         (\<forall>p. under_cache p \<longrightarrow> files st' p = files st p) \<and>
         set (delivered st st') \<subseteq> {FailureNotice} \<and>
         (tg_reply_text sv (Suc (now st1)) FailureNotice = None \<longrightarrow>
            r = Inr () \<and> delivered st st' = [FailureNotice])"
proof -
  let ?e = "LibraryError d"
  let ?s2 = "logger (AnalysisError ?e) (record_call (Completion (analysis_request transcript)) st1)"
  have a: "analyze_text sv transcript st1 = (Inl ?e, ?s2)"
    using assms(2)
    by (simp add: analyze_text_def try_except_def create_completion_def library_def
        log_and_raise_def)
  have t: "handle_audio_try sv upd st = (Inl ?e, ?s2)"
    using assms(1) a
    by (simp add: handle_audio_try_def deliver_protocol_def then_do_def)
  from fetch_transcript_sender[OF assms(1)] obtain m where m: "message upd = Some m"
    by (auto simp: sender_def split: option.splits)
  from assms(3) t have n: "on_failure sv upd ?e ?s2 = (r, st')"
    by (simp add: handle_audio_def try_except_def)
  note f = on_failure_effect[OF n]
  note u = fetch_transcript_frame[OF assms(1)]
  have 1: "new_log st1 st' = [AnalysisError ?e, ProcessingError ?e]"
    using f(2) by (simp add: new_log_def logger_def record_call_def)
  have 2: "new_calls st1 st' = [Completion (analysis_request transcript), SendReply FailureNotice]"
    using f(3) m by (simp add: new_calls_def logger_def record_call_def)
  have 3: "files st' p = files st p" if "under_cache p" for p
  proof -
    have "\<not> (\<exists>fid. tg_get_file sv (now st) upd = Inr fid \<and> p = temp_file sv fid)"
      using that temp_not_cache by auto
    from undisturbedD(2)[OF u this] f(1) show ?thesis
      by (simp add: logger_def record_call_def)
  qed
  have 4: "delivered st st' = (if r = Inr () then [FailureNotice] else [])"
    using f(4) undisturbedD(1)[OF u] by (simp add: delivered_def logger_def record_call_def)
  then have 6: "set (delivered st st') \<subseteq> {FailureNotice}" by auto
  have 5: "r = Inr ()" if "tg_reply_text sv (Suc (now st1)) FailureNotice = None"
    using f(5) m that by (simp add: now_def logger_def record_call_def)
  from 1 2 3 4 5 6 show ?thesis by auto
qed

theorem analysis_failure_atomic_witness:
  "new_log (snd (fetch_transcript unauthorized_services demo_update initial_state))
     (snd (handle_audio unauthorized_services demo_update initial_state))
     = [AnalysisError (LibraryError ''401 Unauthorized''),
        ProcessingError (LibraryError ''401 Unauthorized'')] \<and>
   delivered initial_state (snd (handle_audio unauthorized_services demo_update initial_state))
     = [FailureNotice] \<and>
   files (snd (handle_audio unauthorized_services demo_update initial_state)) ''cache'' = None"
proof -
  have o: "openai_create unauthorized_services n req = Inl ''401 Unauthorized''" for n req
    by (simp add: unauthorized_services_def)
  have c: "under_cache ''cache''"
    by (simp add: under_cache_def cache_dir_def)
  have k: "tg_reply_text unauthorized_services n FailureNotice = None" for n
    by (simp add: unauthorized_services_def stub_services_def)
  from analysis_failure_atomic[OF pair_of_fst[OF unauthorized_fetch] o prod.collapse[symmetric]]
    c k
  show ?thesis by (auto simp: initial_state_def)
qed

section \<open>The failure notice\<close>

text \<open>
  C6. Take any two failing runs, whatever the collaborators, the message, the state, the
  stage that failed and the exceptions \<open>e1\<close> and \<open>e2\<close>. In both the handler's only call
  after the failure is the send of the fixed notice (for an update without a message it
  makes no call at all), nothing but that notice is delivered
  to the user, and when the platform accepts both sends the two users have received the
  same text.
\<close>

theorem failure_notice_independent:
  assumes "handle_audio_try sv1 upd1 st1 = (Inl e1, t1)"
    and "handle_audio_try sv2 upd2 st2 = (Inl e2, t2)"
    and "handle_audio sv1 upd1 st1 = (r1, u1)"
    and "handle_audio sv2 upd2 st2 = (r2, u2)"
  shows "new_calls t1 u1 = (if message upd1 = None then [] else [SendReply FailureNotice]) \<and>
         new_calls t2 u2 = (if message upd2 = None then [] else [SendReply FailureNotice]) \<and>
         set (delivered st1 u1) \<subseteq> {FailureNotice} \<and>
         set (delivered st2 u2) \<subseteq> {FailureNotice} \<and>
         (r1 = Inr () \<and> r2 = Inr () \<longrightarrow>
            delivered st1 u1 = [FailureNotice] \<and> delivered st2 u2 = delivered st1 u1)"
  using failing_run_delivers(1,2)[OF assms(1,3)] failing_run_delivers(1,2)[OF assms(2,4)]
  by auto

theorem failure_notice_independent_witness:
  "delivered initial_state (snd (handle_audio no_download_services demo_update initial_state))
     = [FailureNotice] \<and>
   delivered initial_state (snd (handle_audio unauthorized_services demo_update initial_state))
     = delivered initial_state (snd (handle_audio no_download_services demo_update initial_state)) \<and>
   fst (handle_audio_try no_download_services demo_update initial_state)
     \<noteq> fst (handle_audio_try unauthorized_services demo_update initial_state)"
  using failure_notice_independent[OF pair_of_fst[OF no_download_run]
      pair_of_fst[OF unauthorized_run] pair_of_fst[OF no_download_notice]
      pair_of_fst[OF unauthorized_notice]]
  by (simp add: no_download_run unauthorized_run)

section \<open>The temporary file\<close>

text \<open>
  C7. A request whose \<^verbatim>\<open>try\<close> block completes leaves no temporary file behind. A request
  that fails deletes nothing, and the temporary file that a request with a sender has
  downloaded is still there.
  In either case every path outside the cache directory, other than the request's
  temporary file, holds what it held before.
\<close>

theorem temp_file_cleanup:
  assumes "handle_audio sv upd st = (r, st')"
  shows "(\<forall>fid t. tg_get_file sv (now st) upd = Inr fid \<and>
                  handle_audio_try sv upd st = (Inr (), t) \<longrightarrow>
            files st' (temp_file sv fid) = None) \<and>
         (\<forall>e t. handle_audio_try sv upd st = (Inl e, t) \<longrightarrow>
            (\<forall>p. files st p \<noteq> None \<longrightarrow> files st' p \<noteq> None) \<and>
            (\<forall>fid b. sender upd \<noteq> None \<and>
                     tg_get_file sv (now st) upd = Inr fid \<and>
                     tg_download sv (Suc (now st)) fid = Inr b \<and>
                     files st (temp_file sv fid) \<noteq> Some Dir \<longrightarrow>
               files st' (temp_file sv fid) \<noteq> None)) \<and>
         (\<forall>p. \<not> under_cache p \<and>
              (\<forall>fid. tg_get_file sv (now st) upd = Inr fid \<longrightarrow> p \<noteq> temp_file sv fid) \<longrightarrow>
            files st' p = files st p)"
proof -
  have removed: "files st' (temp_file sv fid) = None"
    if "tg_get_file sv (now st) upd = Inr fid" "handle_audio_try sv upd st = (Inr (), t)" for fid t
  proof -
    from assms that(2) have "st' = t" "handle_audio_try sv upd st = (Inr (), st')"
      by (auto elim: handle_audio_cases)
    from handle_audio_try_returned[OF this(2)] that(1) show ?thesis
      by (metis fun_upd_same sum.inject(2))
  qed
  have kept: "files st' p \<noteq> None"
    if "handle_audio_try sv upd st = (Inl e, t)" "files st p \<noteq> None" for e t p
  proof -
    from assms that(1) have "on_failure sv upd e t = (r, st')"
      by (auto elim: handle_audio_cases)
    from on_failure_effect(1)[OF this] handle_audio_try_raised(2)[OF that] show ?thesis by simp
  qed
  have still_there: "files st' (temp_file sv fid) \<noteq> None"
    if "handle_audio_try sv upd st = (Inl e, t)" and g: "tg_get_file sv (now st) upd = Inr fid"
      "tg_download sv (Suc (now st)) fid = Inr b" "files st (temp_file sv fid) \<noteq> Some Dir"
      "sender upd \<noteq> None"
    for e t fid b
  proof -
    from assms that(1) have "on_failure sv upd e t = (r, st')"
      by (auto elim: handle_audio_cases)
    note n = on_failure_effect(1)[OF this]
    from that(1) show ?thesis
    proof (cases rule: handle_audio_try_cases)
      case (fetch_failed e')
      from fetch_transcript_downloaded[OF fetch_failed(1) g] n show ?thesis by auto
    next
      case (fetched inp tr st1)
      from fetch_transcript_downloaded[OF fetched(1) g]
      obtain b' where b': "files st1 (temp_file sv fid) = Some (File b')" by blast
      from fetch_transcript_success[OF fetched(1)] g(1) have "inp = temp_file sv fid" by auto
      with fetched(2) have "deliver_protocol sv (temp_file sv fid) tr st1 = (Inl e, t)" by simp
      from deliver_protocol_raised(2)[OF this b' temp_not_cache, of "temp_file sv fid"] b' n
      show ?thesis by simp
    qed
  qed
  have frame: "files st' p = files st p"
    if "\<not> under_cache p" "\<forall>fid. tg_get_file sv (now st) upd = Inr fid \<longrightarrow> p \<noteq> temp_file sv fid"
    for p
    using assms
  proof (cases rule: handle_audio_cases)
    case completed
    from handle_audio_try_returned[OF completed(1)] obtain fid tr st1 a s2 q s3
      where h: "tg_get_file sv (now st) upd = Inr fid"
        "files st' = (files s3)(temp_file sv fid := None)"
        "undisturbed (\<lambda>q. q = temp_file sv fid) st st1" "undisturbed under_cache st1 s3"
      by blast
    from that h(1) have "p \<noteq> temp_file sv fid" by blast
    with h(2) undisturbedD(2)[OF h(3), of p] undisturbedD(2)[OF h(4), of p] that(1)
    show ?thesis by simp
  next
    case (failed e t)
    from handle_audio_try_raised(3)[OF failed(1) that(1)] that(2)
      on_failure_effect(1)[OF failed(2)]
    show ?thesis by simp
  qed
  show ?thesis
    using removed kept still_there frame by blast
qed

theorem temp_file_cleanup_witness:
  "files (snd (handle_audio stub_services demo_update initial_state)) ''temp_f1.wav'' = None \<and>
   files (snd (handle_audio unauthorized_services demo_update initial_state)) ''temp_f1.wav'' \<noteq> None \<and>
   files (snd (handle_audio stub_services demo_update initial_state)) ''notes.txt'' = None"
proof -
  note ok = temp_file_cleanup[where sv=stub_services and upd=demo_update and st=initial_state,
      OF prod.collapse[symmetric]]
  note ko = temp_file_cleanup[where sv=unauthorized_services and upd=demo_update and st=initial_state,
      OF prod.collapse[symmetric]]
  have g1: "tg_get_file stub_services (now initial_state) demo_update = Inr ''f1''"
    by (simp add: stub_services_def demo_update_def)
  have g2: "tg_get_file unauthorized_services (now initial_state) demo_update = Inr ''f1''"
    by (simp add: unauthorized_services_def stub_services_def demo_update_def)
  have d2: "tg_download unauthorized_services (Suc (now initial_state)) ''f1'' = Inr ''f1''"
    by (simp add: unauthorized_services_def stub_services_def)
  have n2: "files initial_state (temp_file unauthorized_services ''f1'') \<noteq> Some Dir"
    by (simp add: initial_state_def)
  have s2: "sender demo_update \<noteq> None"
    by (simp add: sender_def demo_update_def)
  have 1: "files (snd (handle_audio stub_services demo_update initial_state))
             (temp_file stub_services ''f1'') = None"
    using ok g1 pair_of_fst[OF stub_run] by blast
  have 2: "files (snd (handle_audio unauthorized_services demo_update initial_state))
             (temp_file unauthorized_services ''f1'') \<noteq> None"
    using ko g2 d2 n2 s2 pair_of_fst[OF unauthorized_run] by blast
  have "\<not> under_cache ''notes.txt''"
    by (simp add: under_cache_def cache_dir_def)
  moreover have "\<forall>fid. tg_get_file stub_services (now initial_state) demo_update = Inr fid
                   \<longrightarrow> ''notes.txt'' \<noteq> temp_file stub_services fid"
    by (simp add: temp_file_def)
  ultimately have 3: "files (snd (handle_audio stub_services demo_update initial_state)) ''notes.txt''
             = files initial_state ''notes.txt''"
    using ok by blast
  from 1 2 3 show ?thesis
    by (simp add: temp_file_def stub_services_def unauthorized_services_def initial_state_def)
qed

section \<open>Loading the model\<close>

text \<open>
  C8 fails on \<^verbatim>\<open>neuro_secretary.py\<close>. Its process loads nothing at startup and its
  \<^verbatim>\<open>transcribe_audio\<close> loads the model inside every request: two requests, two loads,
  each between the noise reduction and the transcription of its request.
\<close>

theorem first_version_loads_per_request:
  "calls (process1 stub_services [] initial_state) = [] \<and>
   model_loads (calls (process1 stub_services [demo_update, demo_update] initial_state)) = 2 \<and>
   take 5 (calls (process1 stub_services [demo_update] initial_state))
     = [GetFile, Download ''f1'', ReduceNoise, LoadModel ''base'', Transcribe]"
  by (simp add: process1_def handle_audio1_def handle_audio1_body_def clean_audio1_def
      transcribe_audio1_def
      analyze_text1_def generate_protocol1_def WHISPER_MODEL_def model_loads_def run_defs)

section \<open>Exceptions leaving the handler\<close>

text \<open>
  What the \<^verbatim>\<open>except\<close> clause achieves: when a stage raised, the update has a message and
  the platform accepts the send of the notice, the handler returns and the user has
  received the notice and nothing else.
\<close>

lemma handler_returns_when_notice_accepted:
  assumes "handle_audio_try sv upd st = (Inl e, t)" and "handle_audio sv upd st = (r, st')"
    and "message upd \<noteq> None" and "tg_reply_text sv (now t) FailureNotice = None"
  shows "r = Inr ()" and "delivered st st' = [FailureNotice]"
    and "logged st' = logged t @ [ProcessingError e]"
  using failing_run_delivers[OF assms(1,2)] assms(3,4)
  by (auto split: option.splits)

text \<open>
  C10 fails on the code, whose docstring promises full error handling: the \<^verbatim>\<open>except\<close>
  clause is itself unguarded. First run: the platform is out of reach, the download
  raises, the handler catches and logs that, and the send of the failure notice raises in
  its turn, out of \<^verbatim>\<open>handle_audio\<close>. Second run: the update is a channel post, so line
  109 raises inside the \<^verbatim>\<open>try\<close>, the handler catches and logs that, and line 137 raises
  again before any send, out of \<^verbatim>\<open>handle_audio\<close>.
\<close>

theorem handler_lets_exceptions_out:
  "fst (handle_audio_try offline_services demo_update initial_state)
     = Inl (LibraryError ''timed out'') \<and>
   fst (handle_audio offline_services demo_update initial_state)
     = Inl (LibraryError ''timed out'') \<and>
   sent (snd (handle_audio offline_services demo_update initial_state)) = [] \<and>
   fst (handle_audio_try stub_services channel_post initial_state) = Inl AttributeError \<and>
   fst (handle_audio stub_services channel_post initial_state) = Inl AttributeError \<and>
   logged (snd (handle_audio stub_services channel_post initial_state))
     = [ProcessingError AttributeError] \<and>
   calls (snd (handle_audio stub_services channel_post initial_state)) = [] \<and>
   sent (snd (handle_audio stub_services channel_post initial_state)) = []"
  by (simp add: run_defs offline_services_def no_download_services_def channel_post_def)

end
